theory Spec2Isabelle
  imports Main
begin

section \<open>Python values\<close>

text \<open>
  A Python \<^verbatim>\<open>str\<close> is a sequence of Unicode code points, and \<^verbatim>\<open>len\<close> and slicing count
  code points. It is modelled as the list of its code points, so that the model counts what
  the program counts. \<open>str_lit\<close> turns a literal of the source into that form.
\<close>

type_synonym pystr = "nat list"

definition str_lit :: "string \<Rightarrow> pystr" where
  "str_lit s = map of_char s"

text \<open>
  \<^verbatim>\<open>str.isspace\<close> of one code point: the characters that \<^verbatim>\<open>str.strip()\<close> removes
  when it is called without an argument.
\<close>

definition isspace :: "nat \<Rightarrow> bool" where
  "isspace c =
     ((9 \<le> c \<and> c \<le> 13) \<or> (28 \<le> c \<and> c \<le> 32) \<or> c = 133 \<or> c = 160 \<or> c = 5760 \<or>
      (8192 \<le> c \<and> c \<le> 8202) \<or> c = 8232 \<or> c = 8233 \<or> c = 8239 \<or> c = 8287 \<or> c = 12288)"

definition strip :: "pystr \<Rightarrow> pystr" where
  "strip s = rev (dropWhile isspace (rev (dropWhile isspace s)))"

text \<open>\<^verbatim>\<open>sep.join(parts)\<close>\<close>

fun join :: "pystr \<Rightarrow> pystr list \<Rightarrow> pystr" where
  "join sep [] = []"
| "join sep [x] = x"
| "join sep (x # y # ys) = x @ sep @ join sep (y # ys)"

text \<open>\<^verbatim>\<open>str(n)\<close> of an integer: its decimal digits, with a minus sign when negative.\<close>

fun decimal :: "nat \<Rightarrow> pystr" where
  "decimal n = (if n < 10 then [48 + n] else decimal (n div 10) @ [48 + n mod 10])"

declare decimal.simps [simp del]

definition str_int :: "int \<Rightarrow> pystr" where
  "str_int i = (if i < 0 then 45 # decimal (nat (- i)) else decimal (nat i))"

text \<open>
  The values a Qdrant payload field can hold (JSON values as Python objects). The type
  \<open>'f\<close> stands for Python's \<^verbatim>\<open>float\<close>: floating-point arithmetic is not modelled, every
  definition is parametric in it.
\<close>

datatype 'f pyval =
    PNone
  | PBool bool
  | PInt int
  | PFloat 'f
  | PStr pystr
  | PList "'f pyval list"
  | PDict "(pystr \<times> 'f pyval) list"

text \<open>
  \<^verbatim>\<open>str(v)\<close>, which is also what an f-string writes for \<^verbatim>\<open>{v}\<close>. The text of a float, a
  list or a dict is produced by the interpreter's \<^verbatim>\<open>repr\<close> machinery; it is the parameter
  \<open>repr\<close>.
\<close>

fun py_str :: "('f pyval \<Rightarrow> pystr) \<Rightarrow> 'f pyval \<Rightarrow> pystr" where
  "py_str repr (PStr s) = s"
| "py_str repr PNone = str_lit ''None''"
| "py_str repr (PBool b) = (if b then str_lit ''True'' else str_lit ''False'')"
| "py_str repr (PInt i) = str_int i"
| "py_str repr v = repr v"

text \<open>\<^verbatim>\<open>d.get(key, default)\<close> on a dict given as an association list.\<close>

definition dict_get :: "(pystr \<times> 'v) list \<Rightarrow> pystr \<Rightarrow> 'v \<Rightarrow> 'v" where
  "dict_get d key dflt = (case map_of d key of None \<Rightarrow> dflt | Some v \<Rightarrow> v)"

section \<open>Exceptions\<close>

text \<open>
  Every exception the program can meet is an instance of \<^verbatim>\<open>Exception\<close>, so a clause
  \<^verbatim>\<open>except Exception\<close> catches each constructor below, FastAPI's \<^verbatim>\<open>HTTPException\<close>
  included. \<open>External\<close> is an error raised inside a third-party client (Qdrant, the
  embedding model, the OpenAI SDK, requests). The text that \<^verbatim>\<open>str(e)\<close> gives is kept
  symbolic as \<open>Str e\<close>.
\<close>

datatype exn =
    HTTPException nat detail
  | ValueError pystr
  | TypeError
  | AttributeError pystr
  | External pystr
and detail =
    Msg pystr
  | Str exn

section \<open>config.py\<close>

record config =
  OPENAI_API_KEY :: "pystr option"
  NOTION_TOKEN :: "pystr option"
  QDRANT_HOST :: pystr
  QDRANT_PORT :: int
  COLLECTION_NAME :: pystr
  EMBEDDING_MODEL :: pystr
  LLM_MODEL :: pystr
  DEFAULT_SEARCH_LIMIT :: int
  CHUNK_SIZE :: int
  HOST :: pystr
  PORT :: int
  DEBUG :: bool

text \<open>
  \<^verbatim>\<open>getattr(cls, key)\<close>: the value of the class attribute of that name, and an
  \<^verbatim>\<open>AttributeError\<close> when there is none. \<open>truthy\<close> is the truth value Python gives
  the value: \<^verbatim>\<open>None\<close>, the empty string, zero and \<^verbatim>\<open>False\<close> are false.
\<close>

datatype attr_value =
    Optional_str "pystr option"
  | Str_value pystr
  | Int_value int
  | Bool_value bool

definition getattr :: "config \<Rightarrow> pystr \<Rightarrow> exn + attr_value" where
  "getattr cls key =
     (if key = str_lit ''OPENAI_API_KEY'' then Inr (Optional_str (OPENAI_API_KEY cls))
      else if key = str_lit ''NOTION_TOKEN'' then Inr (Optional_str (NOTION_TOKEN cls))
      else if key = str_lit ''QDRANT_HOST'' then Inr (Str_value (QDRANT_HOST cls))
      else if key = str_lit ''QDRANT_PORT'' then Inr (Int_value (QDRANT_PORT cls))
      else if key = str_lit ''COLLECTION_NAME'' then Inr (Str_value (COLLECTION_NAME cls))
      else if key = str_lit ''EMBEDDING_MODEL'' then Inr (Str_value (EMBEDDING_MODEL cls))
      else if key = str_lit ''LLM_MODEL'' then Inr (Str_value (LLM_MODEL cls))
      else if key = str_lit ''DEFAULT_SEARCH_LIMIT'' then Inr (Int_value (DEFAULT_SEARCH_LIMIT cls))
      else if key = str_lit ''CHUNK_SIZE'' then Inr (Int_value (CHUNK_SIZE cls))
      else if key = str_lit ''HOST'' then Inr (Str_value (HOST cls))
      else if key = str_lit ''PORT'' then Inr (Int_value (PORT cls))
      else if key = str_lit ''DEBUG'' then Inr (Bool_value (DEBUG cls))
      else Inl (AttributeError key))"

fun truthy :: "attr_value \<Rightarrow> bool" where
  "truthy (Optional_str None) = False"
| "truthy (Optional_str (Some s)) = (s \<noteq> [])"
| "truthy (Str_value s) = (s \<noteq> [])"
| "truthy (Int_value i) = (i \<noteq> 0)"
| "truthy (Bool_value b) = b"

text \<open>The list comprehension \<^verbatim>\<open>[key for key in required_keys if not getattr(cls, key)]\<close>.\<close>

fun missing :: "config \<Rightarrow> pystr list \<Rightarrow> exn + pystr list" where
  "missing cls [] = Inr []"
| "missing cls (key # keys) =
     (case getattr cls key of
        Inl e \<Rightarrow> Inl e
      | Inr v \<Rightarrow>
          (case missing cls keys of
             Inl e \<Rightarrow> Inl e
           | Inr ks \<Rightarrow> Inr (if \<not> truthy v then key # ks else ks)))"

definition validate :: "config \<Rightarrow> exn + bool" where
  "validate cls =
     (let required_keys = [str_lit ''OPENAI_API_KEY''] in
      case missing cls required_keys of
        Inl e \<Rightarrow> Inl e
      | Inr missing_keys \<Rightarrow>
          if missing_keys \<noteq> []
          then Inl (ValueError (str_lit ''Missing required environment variables: ''
                                @ join (str_lit '', '') missing_keys))
          else Inr True)"

section \<open>The external services\<close>

text \<open>
  The vector store, the embedding model and the language model are third-party services.
  What each of their operations answers is a field of the environment \<open>env\<close>: a result,
  or the exception it raises. Every operation is called at most once while one request
  is served, so a fixed answer per argument covers every behaviour of the services.
  \<open>py_repr\<close> and \<open>round_float\<close> are the interpreter's \<^verbatim>\<open>repr\<close> and \<^verbatim>\<open>round\<close>.
\<close>

datatype distance = COSINE | EUCLID | DOT

datatype payload_schema_type = KEYWORD | INTEGER | TEXT

record 'f scored_point =
  sp_id :: "'f pyval"
  sp_score :: 'f
  sp_payload :: "(pystr \<times> 'f pyval) list option"

record 'f env =
  SentenceTransformer :: "pystr \<Rightarrow> exn option"
  encode :: "pystr \<Rightarrow> exn + 'f list"
  qdrant_search :: "pystr \<Rightarrow> 'f list \<Rightarrow> int \<Rightarrow> exn + 'f scored_point list"
  OpenAI :: "exn option"
  chat_completions_create :: "pystr \<Rightarrow> pystr \<Rightarrow> pystr \<Rightarrow> exn + 'f pyval"
  requests_post :: "pystr \<Rightarrow> pystr \<Rightarrow> pystr \<Rightarrow> pystr \<Rightarrow> exn + 'f pyval"
  get_collections :: "exn + pystr list"
  create_collection :: "pystr \<Rightarrow> int \<Rightarrow> distance \<Rightarrow> exn option"
  create_payload_index :: "pystr \<Rightarrow> pystr \<Rightarrow> payload_schema_type \<Rightarrow> exn option"
  py_repr :: "'f pyval \<Rightarrow> pystr"
  round_float :: "'f \<Rightarrow> int \<Rightarrow> 'f"

text \<open>
  The calls issued to the services, and the lines printed by the ingestion job, in the
  order in which they happen. The trace is a ghost variable: the program does not read it.
\<close>

datatype printed =
    Creating_collection pystr int
  | Warning_create_payload_index_failed detail
  | Collection_already_exists pystr

datatype 'f call =
    Call_SentenceTransformer pystr
  | Call_encode pystr
  | Call_qdrant_search pystr "'f list" int
  | Call_OpenAI
  | Call_chat_completions_create pystr pystr pystr
  | Call_requests_post pystr pystr pystr pystr
  | Call_get_collections
  | Call_create_collection pystr int distance
  | Call_create_payload_index pystr pystr payload_schema_type
  | Print printed

section \<open>rag\_service.py\<close>

text \<open>
  The service object holds the two lazily built handles; \<open>None\<close> is Python's
  \<^verbatim>\<open>None\<close>. The Qdrant client is built by the constructor, so a service object that
  exists has one. \<open>calls\<close> is the trace.
\<close>

datatype embedding_handle = Embedding_model pystr

datatype llm_handle = OpenAI_client

record 'f rag_service =
  embedding_model :: "embedding_handle option"
  llm_client :: "llm_handle option"
  calls :: "'f call list"

definition issue :: "'f call \<Rightarrow> 'f rag_service \<Rightarrow> 'f rag_service" where
  "issue c self = self\<lparr>calls := calls self @ [c]\<rparr>"

record 'f search_result =
  r_id :: "'f pyval"
  r_score :: 'f
  podcast_tag :: "'f pyval"
  podcast_title :: "'f pyval"
  content :: "'f pyval"

record 'f source =
  title :: "'f pyval"
  tag :: "'f pyval"
  score :: 'f
  content_preview :: "'f pyval"

record 'f chat_result =
  answer :: "'f pyval"
  sources :: "'f source list"
  query :: pystr

definition ensure_embedding_model ::
  "config \<Rightarrow> 'f env \<Rightarrow> 'f rag_service \<Rightarrow> (exn + embedding_handle) \<times> 'f rag_service" where
  "ensure_embedding_model cfg env self =
     (case embedding_model self of
        Some m \<Rightarrow> (Inr m, self)
      | None \<Rightarrow>
          (let self1 = issue (Call_SentenceTransformer (EMBEDDING_MODEL cfg)) self in
           case SentenceTransformer env (EMBEDDING_MODEL cfg) of
             Some e \<Rightarrow> (Inl e, self1)
           | None \<Rightarrow>
               (Inr (Embedding_model (EMBEDDING_MODEL cfg)),
                self1\<lparr>embedding_model := Some (Embedding_model (EMBEDDING_MODEL cfg))\<rparr>)))"

text \<open>A failure of \<^verbatim>\<open>OpenAI()\<close> is caught: the handle stays \<^verbatim>\<open>None\<close>.\<close>

definition ensure_llm_client ::
  "'f env \<Rightarrow> 'f rag_service \<Rightarrow> llm_handle option \<times> 'f rag_service" where
  "ensure_llm_client env self =
     (case llm_client self of
        Some c \<Rightarrow> (Some c, self)
      | None \<Rightarrow>
          (let self1 = issue Call_OpenAI self in
           case OpenAI env of
             Some e \<Rightarrow> (None, self1\<lparr>llm_client := None\<rparr>)
           | None \<Rightarrow> (Some OpenAI_client, self1\<lparr>llm_client := Some OpenAI_client\<rparr>)))"

text \<open>
  The body of the loop of \<open>search_similar_content\<close>: one scored point becomes one result.
  \<^verbatim>\<open>payload or {}\<close> replaces a missing payload by the empty dict.
\<close>

definition normalize_tag :: "'f env \<Rightarrow> 'f pyval \<Rightarrow> 'f pyval" where
  "normalize_tag env tag_value =
     (case tag_value of
        PList ts \<Rightarrow>
          PStr (join (str_lit '', '') (map (py_str (py_repr env)) (filter (\<lambda>t. t \<noteq> PNone) ts)))
      | _ \<Rightarrow> tag_value)"

definition format_point :: "'f env \<Rightarrow> 'f scored_point \<Rightarrow> 'f search_result" where
  "format_point env scored_point =
     (let payload = (case sp_payload scored_point of None \<Rightarrow> [] | Some d \<Rightarrow> d);
          tag_value = dict_get payload (str_lit ''podcast_tag'') (PStr [])
      in \<lparr>r_id = sp_id scored_point,
          r_score = sp_score scored_point,
          podcast_tag = normalize_tag env tag_value,
          podcast_title = dict_get payload (str_lit ''podcast_title'') (PStr []),
          content = dict_get payload (str_lit ''content'') (PStr [])\<rparr>)"

fun format_points ::
  "'f env \<Rightarrow> 'f scored_point list \<Rightarrow> 'f search_result list \<Rightarrow> 'f search_result list" where
  "format_points env [] results = results"
| "format_points env (scored_point # rest) results =
     format_points env rest (results @ [format_point env scored_point])"

definition search_similar_content ::
  "config \<Rightarrow> 'f env \<Rightarrow> 'f rag_service \<Rightarrow> pystr \<Rightarrow> int option
     \<Rightarrow> (exn + 'f search_result list) \<times> 'f rag_service" where
  "search_similar_content cfg env self q limit_opt =
     (let limit = (case limit_opt of None \<Rightarrow> DEFAULT_SEARCH_LIMIT cfg | Some l \<Rightarrow> l) in
      case ensure_embedding_model cfg env self of
        (Inl e, self1) \<Rightarrow> (Inl e, self1)
      | (Inr m, self1) \<Rightarrow>
          (let self2 = issue (Call_encode q) self1 in
           case encode env q of
             Inl e \<Rightarrow> (Inl e, self2)
           | Inr query_vector \<Rightarrow>
               (let self3 = issue (Call_qdrant_search (COLLECTION_NAME cfg) query_vector limit) self2 in
                case qdrant_search env (COLLECTION_NAME cfg) query_vector limit of
                  Inl e \<Rightarrow> (Inl e, self3)
                | Inr search_result \<Rightarrow> (Inr (format_points env search_result []), self3))))"

text \<open>
  \<open>generate_rag_prompt\<close>. The template is cut at its two placeholders; the loop numbers
  the results from 1 and appends two lines per result to \<open>context\<close>. Code point 39 is the
  apostrophe and 10 the newline.
\<close>

definition template_head :: pystr where
  "template_head = str_lit
     ''You are an AI assistant helping users understand podcast content. Use the provided context to answer the user's question accurately and comprehensively.\<newline>\<newline>Context from podcast transcripts:\<newline>''"

definition template_mid :: pystr where
  "template_mid = str_lit ''\<newline>\<newline>User Question: ''"

definition template_tail :: pystr where
  "template_tail = str_lit
     ''\<newline>\<newline>Instructions:\<newline>- Base your answer primarily on the provided context\<newline>- If the context doesn't contain enough information, clearly state this\<newline>- Provide a comprehensive and helpful answer\<newline>- If the context is in Chinese, you can respond in both Chinese and English as appropriate\<newline>- Be conversational and engaging\<newline>\<newline>Answer:''"

definition source_block :: "'f env \<Rightarrow> nat \<Rightarrow> 'f search_result \<Rightarrow> pystr" where
  "source_block env i result =
     (str_lit ''[Source '' @ decimal i @ str_lit ''] Title: '' @ [39]
        @ py_str (py_repr env) (podcast_title result) @ [39] @ str_lit '', Tag: '' @ [39]
        @ py_str (py_repr env) (podcast_tag result) @ [39, 10])
     @ (str_lit ''Content: '' @ py_str (py_repr env) (content result) @ [10, 10])"

fun build_context :: "'f env \<Rightarrow> nat \<Rightarrow> 'f search_result list \<Rightarrow> pystr \<Rightarrow> pystr" where
  "build_context env i [] context = context"
| "build_context env i (result # rest) context =
     build_context env (i + 1) rest (context @ source_block env i result)"

definition generate_rag_prompt ::
  "'f env \<Rightarrow> 'f rag_service \<Rightarrow> pystr \<Rightarrow> 'f search_result list \<Rightarrow> pystr" where
  "generate_rag_prompt env self q search_results =
     (let context = build_context env 1 search_results []
      in template_head @ strip context @ template_mid @ q @ template_tail)"

text \<open>
  \<open>generate_answer\<close>: the SDK client when there is one, the raw HTTP request otherwise.
  Both send the model name, the fixed system message and the prompt, with
  \<^verbatim>\<open>max_tokens=1000\<close> and \<^verbatim>\<open>temperature=0.7\<close>; an answer that cannot be read out of
  the response is an exception of the call.
\<close>

definition system_message :: pystr where
  "system_message = str_lit
     ''You are a helpful AI assistant that answers questions based on podcast content.''"

definition bearer :: "config \<Rightarrow> pystr" where
  "bearer cfg =
     str_lit ''Bearer '' @ (case OPENAI_API_KEY cfg of None \<Rightarrow> str_lit ''None'' | Some k \<Rightarrow> k)"

definition generate_answer ::
  "config \<Rightarrow> 'f env \<Rightarrow> 'f rag_service \<Rightarrow> pystr \<Rightarrow> 'f search_result list
     \<Rightarrow> (exn + 'f pyval) \<times> 'f rag_service" where
  "generate_answer cfg env self q search_results =
     (let prompt = generate_rag_prompt env self q search_results in
      case ensure_llm_client env self of
        (Some client, self1) \<Rightarrow>
          (chat_completions_create env (LLM_MODEL cfg) system_message prompt,
           issue (Call_chat_completions_create (LLM_MODEL cfg) system_message prompt) self1)
      | (None, self1) \<Rightarrow>
          (requests_post env (bearer cfg) (LLM_MODEL cfg) system_message prompt,
           issue (Call_requests_post (bearer cfg) (LLM_MODEL cfg) system_message prompt) self1))"

text \<open>
  The preview of one content value:
  \<^verbatim>\<open>c[:200] + "..." if len(c) > 200 else c\<close>. \<^verbatim>\<open>len\<close> raises on a value that has no
  length, and a list or dict longer than 200 cannot be sliced and joined to a string (the
  dict raises a KeyError from Python 3.12 on).
\<close>

definition preview :: "'f pyval \<Rightarrow> exn + 'f pyval" where
  "preview c =
     (case c of
        PStr s \<Rightarrow> Inr (if length s > 200 then PStr (take 200 s @ str_lit ''...'') else PStr s)
      | PList xs \<Rightarrow> (if length xs > 200 then Inl TypeError else Inr (PList xs))
      | PDict d \<Rightarrow> (if length (remdups (map fst d)) > 200 then Inl TypeError else Inr (PDict d))
      | _ \<Rightarrow> Inl TypeError)"

fun format_sources :: "'f env \<Rightarrow> 'f search_result list \<Rightarrow> exn + 'f source list" where
  "format_sources env [] = Inr []"
| "format_sources env (result # rest) =
     (case preview (content result) of
        Inl e \<Rightarrow> Inl e
      | Inr p \<Rightarrow>
          (case format_sources env rest of
             Inl e \<Rightarrow> Inl e
           | Inr ss \<Rightarrow>
               Inr (\<lparr>title = podcast_title result,
                     tag = podcast_tag result,
                     score = round_float env (r_score result) 3,
                     content_preview = p\<rparr> # ss)))"

definition no_content_answer :: pystr where
  "no_content_answer = str_lit
     ''I couldn't find any relevant content to answer your question. Please try rephrasing your question or asking about a different topic.''"

definition chat ::
  "config \<Rightarrow> 'f env \<Rightarrow> 'f rag_service \<Rightarrow> pystr \<Rightarrow> int option
     \<Rightarrow> (exn + 'f chat_result) \<times> 'f rag_service" where
  "chat cfg env self q limit =
     (case search_similar_content cfg env self q limit of
        (Inl e, self1) \<Rightarrow> (Inl e, self1)
      | (Inr search_results, self1) \<Rightarrow>
          if search_results = []
          then (Inr \<lparr>answer = PStr no_content_answer, sources = [], query = q\<rparr>, self1)
          else
            (case generate_answer cfg env self1 q search_results of
               (Inl e, self2) \<Rightarrow> (Inl e, self2)
             | (Inr a, self2) \<Rightarrow>
                 (case format_sources env search_results of
                    Inl e \<Rightarrow> (Inl e, self2)
                  | Inr ss \<Rightarrow> (Inr \<lparr>answer = a, sources = ss, query = q\<rparr>, self2))))"

text \<open>
  \<open>health_check\<close>. A key that one of the two shapes of the \<^verbatim>\<open>qdrant\<close> entry lacks is
  \<open>None\<close>.
\<close>

record qdrant_component =
  q_status :: pystr
  q_collections :: "pystr list option"
  q_target_collection_exists :: "bool option"
  q_error :: "detail option"

record component =
  c_status :: pystr
  c_model :: pystr

record health_status =
  hs_status :: pystr
  hs_qdrant :: qdrant_component
  hs_embedding_model :: component
  hs_openai :: component

definition health_check ::
  "config \<Rightarrow> 'f env \<Rightarrow> 'f rag_service \<Rightarrow> health_status \<times> 'f rag_service" where
  "health_check cfg env self =
     (let self1 = issue Call_get_collections self;
          qdrant =
            (case get_collections env of
               Inr collection_names \<Rightarrow>
                 \<lparr>q_status = str_lit ''healthy'',
                  q_collections = Some collection_names,
                  q_target_collection_exists = Some (COLLECTION_NAME cfg \<in> set collection_names),
                  q_error = None\<rparr>
             | Inl e \<Rightarrow>
                 \<lparr>q_status = str_lit ''unhealthy'',
                  q_collections = None,
                  q_target_collection_exists = None,
                  q_error = Some (Str e)\<rparr>)
      in (\<lparr>hs_status =
             (case get_collections env of
                Inr collection_names \<Rightarrow> str_lit ''healthy''
              | Inl e \<Rightarrow> str_lit ''unhealthy''),
           hs_qdrant = qdrant,
           hs_embedding_model =
             (if embedding_model self1 = None
              then \<lparr>c_status = str_lit ''deferred'', c_model = EMBEDDING_MODEL cfg\<rparr>
              else \<lparr>c_status = str_lit ''initialized'', c_model = EMBEDDING_MODEL cfg\<rparr>),
           hs_openai =
             (if llm_client self1 = None
              then \<lparr>c_status = str_lit ''deferred'', c_model = LLM_MODEL cfg\<rparr>
              else \<lparr>c_status = str_lit ''initialized'', c_model = LLM_MODEL cfg\<rparr>)\<rparr>,
          self1))"

section \<open>main.py\<close>

text \<open>
  The global \<open>rag_service\<close> is \<open>None\<close> when the start-up could not build the service.
  The body of every endpoint is inside \<^verbatim>\<open>try\<close>, and its handler
  \<^verbatim>\<open>except Exception as e: raise HTTPException(status_code=500, detail=str(e))\<close>
  is \<open>except_Exception\<close>. An endpoint that raises \<open>HTTPException c d\<close> answers with
  the HTTP status \<open>c\<close>.
\<close>

record chat_request =
  req_query :: pystr
  req_limit :: "int option"

record 'f search_response =
  results :: "'f search_result list"
  sr_query :: pystr

definition except_Exception :: "(exn + 'a) \<times> 's \<Rightarrow> (exn + 'a) \<times> 's" where
  "except_Exception r =
     (case r of
        (Inl e, s) \<Rightarrow> (Inl (HTTPException 500 (Str e)), s)
      | (Inr v, s) \<Rightarrow> (Inr v, s))"

definition health_check_endpoint ::
  "config \<Rightarrow> 'f env \<Rightarrow> 'f rag_service option \<Rightarrow> (exn + health_status) \<times> 'f rag_service option" where
  "health_check_endpoint cfg env rag =
     except_Exception
       (case rag of
          None \<Rightarrow> (Inl (HTTPException 503 (Msg (str_lit ''RAG service not initialized''))), None)
        | Some self \<Rightarrow>
            (case health_check cfg env self of
               (health_status, self1) \<Rightarrow> (Inr health_status, Some self1)))"

definition chat_endpoint ::
  "config \<Rightarrow> 'f env \<Rightarrow> 'f rag_service option \<Rightarrow> chat_request
     \<Rightarrow> (exn + 'f chat_result) \<times> 'f rag_service option" where
  "chat_endpoint cfg env rag request =
     except_Exception
       (case rag of
          None \<Rightarrow> (Inl (HTTPException 503 (Msg (str_lit ''RAG service not initialized''))), None)
        | Some self \<Rightarrow>
            if strip (req_query request) = []
            then (Inl (HTTPException 400 (Msg (str_lit ''Query cannot be empty''))), Some self)
            else
              (case chat cfg env self (req_query request) (req_limit request) of
                 (result, self1) \<Rightarrow> (result, Some self1)))"

definition search_endpoint ::
  "config \<Rightarrow> 'f env \<Rightarrow> 'f rag_service option \<Rightarrow> pystr \<Rightarrow> int option
     \<Rightarrow> (exn + 'f search_response) \<times> 'f rag_service option" where
  "search_endpoint cfg env rag q limit =
     except_Exception
       (case rag of
          None \<Rightarrow> (Inl (HTTPException 503 (Msg (str_lit ''RAG service not initialized''))), None)
        | Some self \<Rightarrow>
            if strip q = []
            then (Inl (HTTPException 400 (Msg (str_lit ''Query cannot be empty''))), Some self)
            else
              (case search_similar_content cfg env self q limit of
                 (Inl e, self1) \<Rightarrow> (Inl e, Some self1)
               | (Inr rs, self1) \<Rightarrow> (Inr \<lparr>results = rs, sr_query = q\<rparr>, Some self1)))"

section \<open>ingest\_qdrant.py\<close>

text \<open>
  \<open>ensure_collection\<close>, on the trace of calls and printed lines. The index on
  \<^verbatim>\<open>podcast_tag\<close> is created inside its own \<^verbatim>\<open>try\<close>: its failure prints a warning.
\<close>

definition ensure_collection ::
  "'f env \<Rightarrow> pystr \<Rightarrow> int \<Rightarrow> 'f call list \<Rightarrow> (exn + unit) \<times> 'f call list" where
  "ensure_collection client collection_name vector_size trace =
     (let trace1 = trace @ [Call_get_collections] in
      case get_collections client of
        Inl e \<Rightarrow> (Inl e, trace1)
      | Inr names \<Rightarrow>
          if collection_name \<notin> set names
          then
            (let trace2 = trace1 @ [Print (Creating_collection collection_name vector_size),
                                    Call_create_collection collection_name vector_size COSINE] in
             case create_collection client collection_name vector_size COSINE of
               Some e \<Rightarrow> (Inl e, trace2)
             | None \<Rightarrow>
                 (let trace3 = trace2 @ [Call_create_payload_index collection_name
                                           (str_lit ''podcast_tag'') KEYWORD] in
                  case create_payload_index client collection_name (str_lit ''podcast_tag'') KEYWORD of
                    Some e \<Rightarrow>
                      (Inr (), trace3 @ [Print (Warning_create_payload_index_failed (Str e))])
                  | None \<Rightarrow> (Inr (), trace3)))
          else (Inr (), trace1 @ [Print (Collection_already_exists collection_name)]))"

section \<open>Reading the trace\<close>



section \<open>Example inputs\<close>

text \<open>
  The settings of \<^verbatim>\<open>config.py\<close> when no environment variable is set, the service
  object as its constructor leaves it, four scored points (a list tag, a list tag with a
  null entry and no title, a scalar tag with no content, no payload at all), and services
  that answer with the given points and collection names. In the example the OpenAI SDK
  client cannot be built and the payload index cannot be created. \<open>example_results\<close>
  are two search results, the content of the second ending in two spaces.
\<close>

definition default_config :: config where
  "default_config =
     \<lparr>OPENAI_API_KEY = None, NOTION_TOKEN = None,
      QDRANT_HOST = str_lit ''localhost'', QDRANT_PORT = 6333,
      COLLECTION_NAME = str_lit ''podcast_chunks'',
      EMBEDDING_MODEL = str_lit ''paraphrase-multilingual-MiniLM-L12-v2'',
      LLM_MODEL = str_lit ''gpt-4o-mini'',
      DEFAULT_SEARCH_LIMIT = 5, CHUNK_SIZE = 1000,
      HOST = str_lit ''localhost'', PORT = 8000, DEBUG = False\<rparr>"

definition new_service :: "'f rag_service" where
  "new_service = \<lparr>embedding_model = None, llm_client = None, calls = []\<rparr>"

definition example_points :: "int scored_point list" where
  "example_points =
     [\<lparr>sp_id = PInt 1, sp_score = 9,
       sp_payload = Some [(str_lit ''podcast_tag'', PList [PStr (str_lit ''a''), PStr (str_lit ''b'')]),
                          (str_lit ''podcast_title'', PStr (str_lit ''Episode 1'')),
                          (str_lit ''content'', PStr (replicate 201 120))]\<rparr>,
      \<lparr>sp_id = PInt 2, sp_score = 8,
       sp_payload = Some [(str_lit ''podcast_tag'',
                           PList [PStr (str_lit ''a''), PNone, PStr (str_lit ''b'')]),
                          (str_lit ''content'', PStr (str_lit ''short''))]\<rparr>,
      \<lparr>sp_id = PInt 3, sp_score = 7,
       sp_payload = Some [(str_lit ''podcast_tag'', PStr (str_lit ''solo''))]\<rparr>,
      \<lparr>sp_id = PInt 4, sp_score = 6, sp_payload = None\<rparr>]"

definition example_env :: "int scored_point list \<Rightarrow> pystr list \<Rightarrow> int env" where
  "example_env points names =
     \<lparr>SentenceTransformer = (\<lambda>name. None),
      encode = (\<lambda>text. Inr [0, 1]),
      qdrant_search = (\<lambda>collection vector limit. Inr points),
      OpenAI = Some (External (str_lit ''no api key'')),
      chat_completions_create = (\<lambda>model system user. Inr (PStr (str_lit ''fine''))),
      requests_post = (\<lambda>auth model system user. Inr (PStr (str_lit ''fine''))),
      get_collections = Inr names,
      create_collection = (\<lambda>name size dist. None),
      create_payload_index = (\<lambda>name field schema. Some (External (str_lit ''timeout''))),
      py_repr = (\<lambda>v. []),
      round_float = (\<lambda>x ndigits. x)\<rparr>"

definition example_results :: "int search_result list" where
  "example_results =
     [\<lparr>r_id = PInt 1, r_score = 9, podcast_tag = PStr (str_lit ''a, b''),
       podcast_title = PStr (str_lit ''Ep 1''), content = PStr (str_lit ''first'')\<rparr>,
      \<lparr>r_id = PInt 2, r_score = 8, podcast_tag = PStr (str_lit ''solo''),
       podcast_title = PStr (str_lit ''Ep 2''), content = PStr (str_lit ''second  '')\<rparr>]"

section \<open>The loops and the state\<close>

lemma issue_fields [simp]:
  "embedding_model (issue c self) = embedding_model self"
  "llm_client (issue c self) = llm_client self"
  "calls (issue c self) = calls self @ [c]"
  by (simp_all add: issue_def)

lemma format_points_acc:
  "format_points env pts acc = acc @ map (format_point env) pts"
  by (induction pts arbitrary: acc) simp_all

lemma build_context_acc:
  "build_context env i rs ctx = ctx @ concat (map2 (source_block env) [i..<i + length rs] rs)"
proof (induction rs arbitrary: i ctx)
  case Nil
  then show ?case by simp
next
  case (Cons r rs)
  have "[i..<i + length (r # rs)] = i # [Suc i..<Suc i + length rs]"
    by (simp add: upt_rec)
  then show ?case using Cons.IH [of "i + 1" "ctx @ source_block env i r"] by simp
qed

lemma strip_keeps:
  assumes "xs @ ys = a # zs" and "\<not> isspace a" and "b \<in> set ys" and "\<not> isspace b"
  shows "strip (xs @ ys) = xs @ rev (dropWhile isspace (rev ys))"
proof -
  have "dropWhile isspace (xs @ ys) = xs @ ys"
    using assms(1,2) by simp
  moreover have "dropWhile isspace (rev ys @ rev xs) = dropWhile isspace (rev ys) @ rev xs"
    using assms(3,4) by (intro dropWhile_append1 [of b]) simp_all
  ultimately show ?thesis
    by (simp add: strip_def)
qed

lemma source_block_starts:
  "\<exists>zs. source_block env i r = 91 # zs"
  by (simp add: source_block_def str_lit_def)

lemma context_snoc:
  "concat (map2 (source_block env) [i..<i + Suc (length rs)] (rs @ [r])) =
     concat (map2 (source_block env) [i..<i + length rs] rs) @ source_block env (i + length rs) r"
  by simp

lemma context_starts:
  "rs \<noteq> [] \<Longrightarrow> \<exists>zs. concat (map2 (source_block env) [i..<i + length rs] rs) = 91 # zs"
proof (cases rs)
  case Nil
  assume "rs \<noteq> []"
  with Nil show ?thesis by simp
next
  case (Cons r rs')
  obtain zs where "source_block env i r = 91 # zs"
    using source_block_starts by blast
  moreover have "[i..<i + length (r # rs')] = i # [Suc i..<Suc i + length rs']"
    by (simp add: upt_rec)
  ultimately show ?thesis using Cons by simp
qed

lemma strip_context:
  assumes "rs \<noteq> []"
  shows "strip (concat (map2 (source_block env) [1..<Suc (length rs)] rs)) =
           concat (map2 (source_block env) [1..<length rs] (butlast rs))
             @ rev (dropWhile isspace (rev (source_block env (length rs) (last rs))))"
proof -
  from assms obtain bs l where rs: "rs = bs @ [l]"
    by (cases rs rule: rev_cases) simp_all
  define A where "A = concat (map2 (source_block env) [1..<Suc (length bs)] bs)"
  define L where "L = source_block env (Suc (length bs)) l"
  have split: "concat (map2 (source_block env) [1..<Suc (length rs)] rs) = A @ L"
    using context_snoc [of env 1 bs l] by (simp add: rs A_def L_def)
  obtain zs where zs: "A @ L = 91 # zs"
    using context_starts [OF assms, of env 1] split by auto
  obtain ys where ys: "L = 91 # ys"
    unfolding L_def using source_block_starts by blast
  have sp: "\<not> isspace 91"
    by (simp add: isspace_def)
  have "91 \<in> set L"
    using ys by simp
  then have "strip (A @ L) = A @ rev (dropWhile isspace (rev L))"
    using zs sp by (intro strip_keeps [where a = 91 and b = 91 and zs = zs]) simp_all
  then show ?thesis
    using split by (simp add: rs A_def L_def)
qed

lemma source_block_text:
  "source_block env =
     (\<lambda>i r. str_lit ''[Source '' @ decimal i @ str_lit ''] Title: '' @ [39]
              @ py_str (py_repr env) (podcast_title r) @ [39] @ str_lit '', Tag: '' @ [39]
              @ py_str (py_repr env) (podcast_tag r) @ [39, 10]
              @ str_lit ''Content: '' @ py_str (py_repr env) (content r) @ [10, 10])"
  by (intro ext) (simp add: source_block_def)

lemma source_block_repr:
  "py_repr env' = py_repr env \<Longrightarrow> source_block env' i r = source_block env i r"
  by (simp add: source_block_def)

lemma build_context_repr:
  "py_repr env' = py_repr env \<Longrightarrow> build_context env' i rs ctx = build_context env i rs ctx"
proof (induction rs arbitrary: i ctx)
  case Nil
  then show ?case by simp
next
  case (Cons r rs)
  have "source_block env' i r = source_block env i r"
    using Cons.prems by (rule source_block_repr)
  then show ?case using Cons.IH [OF Cons.prems] by simp
qed

lemma search_similar_content_Inr:
  "fst (search_similar_content cfg env self q limit) = Inr rs \<longleftrightarrow>
     (embedding_model self \<noteq> None \<or> SentenceTransformer env (EMBEDDING_MODEL cfg) = None) \<and>
     (\<exists>v pts. encode env q = Inr v \<and>
        qdrant_search env (COLLECTION_NAME cfg) v
          (case limit of None \<Rightarrow> DEFAULT_SEARCH_LIMIT cfg | Some l \<Rightarrow> l) = Inr pts \<and>
        rs = map (format_point env) pts)"
  by (auto simp: search_similar_content_def ensure_embedding_model_def Let_def format_points_acc
      split: option.splits sum.splits)



lemma format_sources_Inr:
  "format_sources env rs = Inr ss \<Longrightarrow>
     length ss = length rs \<and>
     (\<forall>i<length rs. preview (content (rs ! i)) = Inr (content_preview (ss ! i)))"
proof (induction rs arbitrary: ss)
  case Nil
  then show ?case by simp
next
  case (Cons r rs)
  from Cons.prems obtain p ss' where p: "preview (content r) = Inr p"
    and ss': "format_sources env rs = Inr ss'"
    and ss: "ss = \<lparr>title = podcast_title r, tag = podcast_tag r,
                    score = round_float env (r_score r) 3, content_preview = p\<rparr> # ss'"
    by (auto split: sum.splits)
  from Cons.IH [OF ss'] have len: "length ss' = length rs"
    and nth: "\<And>i. i < length rs \<Longrightarrow> preview (content (rs ! i)) = Inr (content_preview (ss' ! i))"
    by simp_all
  show ?case
  proof (intro conjI allI impI)
    show "length ss = length (r # rs)" using ss len by simp
  next
    fix i assume "i < length (r # rs)"
    then show "preview (content ((r # rs) ! i)) = Inr (content_preview (ss ! i))"
      using p ss nth by (cases i) simp_all
  qed
qed

lemma chat_Inr:
  "fst (chat cfg env self q limit) = Inr res \<Longrightarrow>
     \<exists>rs. fst (search_similar_content cfg env self q limit) = Inr rs \<and>
          format_sources env rs = Inr (sources res)"
  by (auto simp: chat_def split: prod.splits sum.splits if_splits)

lemma preview_str:
  "preview (PStr s) = Inr (PStr (if length s \<le> 200 then s else take 200 s @ str_lit ''...''))"
  by (simp add: preview_def)

lemma format_point_no_payload:
  "sp_payload p = None \<Longrightarrow>
     podcast_tag (format_point env p) = PStr [] \<and>
     podcast_title (format_point env p) = PStr [] \<and>
     content (format_point env p) = PStr []"
  by (simp add: format_point_def dict_get_def normalize_tag_def Let_def)

lemma format_point_missing:
  assumes "sp_payload p = Some d"
  shows "map_of d (str_lit ''podcast_tag'') = None \<Longrightarrow> podcast_tag (format_point env p) = PStr []"
    and "map_of d (str_lit ''podcast_title'') = None \<Longrightarrow> podcast_title (format_point env p) = PStr []"
    and "map_of d (str_lit ''content'') = None \<Longrightarrow> content (format_point env p) = PStr []"
  using assms by (simp_all add: format_point_def dict_get_def normalize_tag_def Let_def)

lemma format_point_tag_list:
  "sp_payload p = Some d \<Longrightarrow> map_of d (str_lit ''podcast_tag'') = Some (PList ts) \<Longrightarrow>
     podcast_tag (format_point env p) =
       PStr (join (str_lit '', '') (map (py_str (py_repr env)) (filter (\<lambda>t. t \<noteq> PNone) ts)))"
  by (simp add: format_point_def dict_get_def normalize_tag_def Let_def)

lemma format_point_tag_scalar:
  "sp_payload p = Some d \<Longrightarrow> map_of d (str_lit ''podcast_tag'') = Some x \<Longrightarrow>
     \<forall>ts. x \<noteq> PList ts \<Longrightarrow> podcast_tag (format_point env p) = x"
  by (cases x) (auto simp: format_point_def dict_get_def normalize_tag_def Let_def)

lemma str_elements_comp:
  "map (py_str r \<circ> PStr) ss = ss"
  by (induction ss) simp_all

lemma example_search:
  "fst (search_similar_content default_config (example_env points names) new_service q None)
     = Inr (map (format_point (example_env points names)) points)"
  by (simp add: search_similar_content_Inr) (simp add: example_env_def)

lemma example_contents:
  "map content (map (format_point (example_env points names)) example_points) =
     [PStr (replicate 201 120), PStr (str_lit ''short''), PStr [], PStr []]"
  by (simp add: example_points_def format_point_def normalize_tag_def dict_get_def Let_def
      str_lit_def)

lemma example_chat:
  "\<exists>res. fst (chat default_config (example_env example_points []) new_service q None) = Inr res"
proof -
  define env :: "int env" where "env = example_env example_points []"
  define rs where "rs = map (format_point env) example_points"
  obtain s1 where s1: "search_similar_content default_config env new_service q None = (Inr rs, s1)"
    using example_search [of example_points "[]" q] unfolding env_def rs_def
    by (cases "search_similar_content default_config (example_env example_points [])
                 new_service q None") simp
  have ne: "rs \<noteq> []"
    by (simp add: rs_def example_points_def)
  obtain s2 where s2: "generate_answer default_config env s1 q rs = (Inr (PStr (str_lit ''fine'')), s2)"
    by (cases "generate_answer default_config env s1 q rs")
       (simp add: generate_answer_def Let_def ensure_llm_client_def example_env_def env_def
        split: option.splits prod.splits)
  obtain ss where ss: "format_sources env rs = Inr ss"
    by (simp add: rs_def env_def example_points_def format_point_def normalize_tag_def
        dict_get_def Let_def str_lit_def preview_def)
  have "fst (chat default_config env new_service q None)
          = Inr \<lparr>answer = PStr (str_lit ''fine''), sources = ss, query = q\<rparr>"
    using s1 ne s2 ss by (simp add: chat_def)
  then show ?thesis unfolding env_def by blast
qed

section \<open>The HTTP endpoints\<close>

text \<open>
  Every endpoint wraps its whole body, the two explicit \<^verbatim>\<open>raise HTTPException\<close>
  statements included, in \<^verbatim>\<open>try ... except Exception\<close>. Whatever is raised inside
  is therefore raised again with status 500.
\<close>

lemma endpoints_only_500:
  "fst (chat_endpoint cfg env rag request) = Inl e \<Longrightarrow> \<exists>d. e = HTTPException 500 d"
  "fst (search_endpoint cfg env rag q limit) = Inl e \<Longrightarrow> \<exists>d. e = HTTPException 500 d"
  "fst (health_check_endpoint cfg env rag) = Inl e \<Longrightarrow> \<exists>d. e = HTTPException 500 d"
  by (auto simp: chat_endpoint_def search_endpoint_def health_check_endpoint_def
      except_Exception_def split: option.splits sum.splits prod.splits if_splits)

text \<open>
  C1. The source raises \<^verbatim>\<open>HTTPException(status_code=400)\<close> for a blank query, on
  \<^verbatim>\<open>POST /api/chat\<close> and on \<^verbatim>\<open>GET /api/search\<close>. That exception is caught by the
  handler of the same function: with an initialized service, the empty query is answered
  with status 500, whose detail is the text of the 400 exception.
\<close>

theorem blank_query_answers_500:
  "chat_endpoint cfg env (Some self) \<lparr>req_query = [], req_limit = limit\<rparr> =
     (Inl (HTTPException 500
            (Str (HTTPException 400 (Msg (str_lit ''Query cannot be empty''))))), Some self) \<and>
   search_endpoint cfg env (Some self) [] limit =
     (Inl (HTTPException 500
            (Str (HTTPException 400 (Msg (str_lit ''Query cannot be empty''))))), Some self)"
  by (simp add: chat_endpoint_def search_endpoint_def except_Exception_def strip_def)

text \<open>
  C6. The source raises \<^verbatim>\<open>HTTPException(status_code=503)\<close> when the service object is
  \<^verbatim>\<open>None\<close>. It is caught in the same way: the health, chat and search endpoints all
  answer an uninitialized service with status 500, whose detail is the text of the 503
  exception.
\<close>

theorem uninitialized_answers_500:
  "health_check_endpoint cfg env None =
     (Inl (HTTPException 500
            (Str (HTTPException 503 (Msg (str_lit ''RAG service not initialized''))))), None) \<and>
   chat_endpoint cfg env None request =
     (Inl (HTTPException 500
            (Str (HTTPException 503 (Msg (str_lit ''RAG service not initialized''))))), None) \<and>
   search_endpoint cfg env None q limit =
     (Inl (HTTPException 500
            (Str (HTTPException 503 (Msg (str_lit ''RAG service not initialized''))))), None)"
  by (simp add: health_check_endpoint_def chat_endpoint_def search_endpoint_def
      except_Exception_def)

section \<open>The chat pipeline\<close>



text \<open>
  C3. The preview of a content string of at most 200 characters is the string itself;
  the preview of a longer one is its first 200 characters followed by three dots. This
  holds for every source that \<open>chat\<close> returns: source \<open>i\<close> is built from search
  result \<open>i\<close>.
\<close>

theorem content_preview_200:
  "preview (PStr s) = Inr (PStr (if length s \<le> 200 then s else take 200 s @ str_lit ''...'')) \<and>
   (fst (chat cfg env self q limit) = Inr res \<longrightarrow>
      (\<exists>rs. fst (search_similar_content cfg env self q limit) = Inr rs \<and>
         length (sources res) = length rs \<and>
         (\<forall>i t. i < length rs \<longrightarrow> content (rs ! i) = PStr t \<longrightarrow>
            content_preview (sources res ! i) =
              PStr (if length t \<le> 200 then t else take 200 t @ str_lit ''...''))))"
proof (intro conjI impI)
  show "preview (PStr s) = Inr (PStr (if length s \<le> 200 then s else take 200 s @ str_lit ''...''))"
    by (rule preview_str)
next
  assume "fst (chat cfg env self q limit) = Inr res"
  then obtain rs where rs: "fst (search_similar_content cfg env self q limit) = Inr rs"
    and fs: "format_sources env rs = Inr (sources res)"
    using chat_Inr by blast
  from format_sources_Inr [OF fs] have len: "length (sources res) = length rs"
    and nth: "\<And>i. i < length rs \<Longrightarrow>
                preview (content (rs ! i)) = Inr (content_preview (sources res ! i))"
    by simp_all
  have "content_preview (sources res ! i) =
          PStr (if length t \<le> 200 then t else take 200 t @ str_lit ''...'')"
    if "i < length rs" "content (rs ! i) = PStr t" for i t
  proof -
    have "Inr (content_preview (sources res ! i)) = preview (PStr t)"
      using nth [OF that(1)] that(2) by simp
    then show ?thesis
      by (simp only: preview_str sum.inject)
  qed
  with rs len show "\<exists>rs. fst (search_similar_content cfg env self q limit) = Inr rs \<and>
         length (sources res) = length rs \<and>
         (\<forall>i t. i < length rs \<longrightarrow> content (rs ! i) = PStr t \<longrightarrow>
            content_preview (sources res ! i) =
              PStr (if length t \<le> 200 then t else take 200 t @ str_lit ''...''))"
    by blast
qed

theorem content_preview_200_witness:
  "\<exists>res. fst (chat default_config (example_env example_points []) new_service
                 (str_lit ''hi'') None) = Inr res \<and>
         content_preview (sources res ! 0) = PStr (replicate 200 120 @ str_lit ''...'') \<and>
         content_preview (sources res ! 1) = PStr (str_lit ''short'')"
proof -
  obtain res where res: "fst (chat default_config (example_env example_points []) new_service
                                (str_lit ''hi'') None) = Inr res"
    using example_chat by blast
  from content_preview_200 [of "[]" default_config "example_env example_points []" new_service
         "str_lit ''hi''" None res] res
  obtain rs where rs: "fst (search_similar_content default_config
                              (example_env example_points []) new_service (str_lit ''hi'') None)
                         = Inr rs"
    and nth: "\<And>i t. i < length rs \<Longrightarrow> content (rs ! i) = PStr t \<Longrightarrow>
                content_preview (sources res ! i) =
                  PStr (if length t \<le> 200 then t else take 200 t @ str_lit ''...'')"
    by blast
  from rs have rs_eq: "rs = map (format_point (example_env example_points [])) example_points"
    by (simp add: example_search)
  have len: "length rs = 4"
    by (simp add: rs_eq example_points_def)
  have c: "map content rs = [PStr (replicate 201 120), PStr (str_lit ''short''), PStr [], PStr []]"
    unfolding rs_eq by (rule example_contents)
  have c0: "content (rs ! 0) = PStr (replicate 201 120)"
    using arg_cong [OF c, of "\<lambda>xs. xs ! 0"] len by simp
  have c1: "content (rs ! 1) = PStr (str_lit ''short'')"
    using arg_cong [OF c, of "\<lambda>xs. xs ! 1"] len by simp
  have "content_preview (sources res ! 0) = PStr (replicate 200 120 @ str_lit ''...'')"
    using nth [OF _ c0] len by simp
  moreover have "content_preview (sources res ! 1) = PStr (str_lit ''short'')"
    using nth [OF _ c1] len by (simp add: str_lit_def)
  ultimately show ?thesis using res by blast
qed

section \<open>Search results\<close>

text \<open>
  C4. When \<open>search_similar_content\<close> returns, result \<open>i\<close> comes from point \<open>i\<close> of
  the vector store's answer. A list tag becomes the string that joins its entries with a
  comma and a space (entries that are \<^verbatim>\<open>None\<close> left out, the others as \<^verbatim>\<open>str\<close> gives
  them), so a list of strings becomes the join of these strings; a tag that is not a list
  is returned as it is.
\<close>

theorem search_normalizes_tag:
  assumes "fst (search_similar_content cfg env self q limit) = Inr rs"
  shows "\<exists>v pts. encode env q = Inr v \<and>
           qdrant_search env (COLLECTION_NAME cfg) v
             (case limit of None \<Rightarrow> DEFAULT_SEARCH_LIMIT cfg | Some l \<Rightarrow> l) = Inr pts \<and>
           length rs = length pts \<and>
           (\<forall>i d. i < length pts \<longrightarrow> sp_payload (pts ! i) = Some d \<longrightarrow>
              (\<forall>ts. map_of d (str_lit ''podcast_tag'') = Some (PList ts) \<longrightarrow>
                    podcast_tag (rs ! i) =
                      PStr (join (str_lit '', '')
                             (map (py_str (py_repr env)) (filter (\<lambda>t. t \<noteq> PNone) ts)))) \<and>
              (\<forall>ss. map_of d (str_lit ''podcast_tag'') = Some (PList (map PStr ss)) \<longrightarrow>
                    podcast_tag (rs ! i) = PStr (join (str_lit '', '') ss)) \<and>
              (\<forall>x. map_of d (str_lit ''podcast_tag'') = Some x \<longrightarrow> (\<forall>ts. x \<noteq> PList ts) \<longrightarrow>
                    podcast_tag (rs ! i) = x))"
proof -
  from assms obtain v pts where v: "encode env q = Inr v"
    and pts: "qdrant_search env (COLLECTION_NAME cfg) v
                (case limit of None \<Rightarrow> DEFAULT_SEARCH_LIMIT cfg | Some l \<Rightarrow> l) = Inr pts"
    and rs: "rs = map (format_point env) pts"
    unfolding search_similar_content_Inr by blast
  have "podcast_tag (rs ! i) =
          PStr (join (str_lit '', '') (map (py_str (py_repr env)) (filter (\<lambda>t. t \<noteq> PNone) ts)))"
    if "i < length pts" "sp_payload (pts ! i) = Some d"
       "map_of d (str_lit ''podcast_tag'') = Some (PList ts)" for i d ts
    using that rs format_point_tag_list [OF that(2) that(3), of env] by simp
  moreover have "podcast_tag (rs ! i) = PStr (join (str_lit '', '') ss)"
    if "i < length pts" "sp_payload (pts ! i) = Some d"
       "map_of d (str_lit ''podcast_tag'') = Some (PList (map PStr ss))" for i d ss
    using that rs format_point_tag_list [OF that(2) that(3), of env]
    by (simp add: str_elements_comp)
  moreover have "podcast_tag (rs ! i) = x"
    if "i < length pts" "sp_payload (pts ! i) = Some d"
       "map_of d (str_lit ''podcast_tag'') = Some x" "\<forall>ts. x \<noteq> PList ts" for i d x
    using that rs format_point_tag_scalar [OF that(2) that(3) that(4), of env] by simp
  ultimately show ?thesis using v pts rs by (intro exI [of _ v] exI [of _ pts]) simp
qed

theorem search_normalizes_tag_witness:
  "podcast_tag (map (format_point (example_env example_points [])) example_points ! 0)
     = PStr (str_lit ''a, b'') \<and>
   podcast_tag (map (format_point (example_env example_points [])) example_points ! 2)
     = PStr (str_lit ''solo'')"
proof -
  define rs where "rs = map (format_point (example_env example_points [])) example_points"
  have "fst (search_similar_content default_config (example_env example_points []) new_service
               (str_lit ''hi'') None) = Inr rs"
    unfolding rs_def by (rule example_search)
  from search_normalizes_tag [OF this]
  obtain v pts where pts: "qdrant_search (example_env example_points [])
                             (COLLECTION_NAME default_config) v
                             (case None of None \<Rightarrow> DEFAULT_SEARCH_LIMIT default_config
                              | Some l \<Rightarrow> l) = Inr pts"
    and lst: "\<And>i d ss. i < length pts \<Longrightarrow> sp_payload (pts ! i) = Some d \<Longrightarrow>
                map_of d (str_lit ''podcast_tag'') = Some (PList (map PStr ss)) \<Longrightarrow>
                podcast_tag (rs ! i) = PStr (join (str_lit '', '') ss)"
    and scl: "\<And>i d x. i < length pts \<Longrightarrow> sp_payload (pts ! i) = Some d \<Longrightarrow>
                map_of d (str_lit ''podcast_tag'') = Some x \<Longrightarrow> \<forall>ts. x \<noteq> PList ts \<Longrightarrow>
                podcast_tag (rs ! i) = x"
    by blast
  from pts have pts_eq: "pts = example_points"
    by (simp add: example_env_def)
  have "podcast_tag (rs ! 0) = PStr (join (str_lit '', '') [str_lit ''a'', str_lit ''b''])"
    by (rule lst [where d = "[(str_lit ''podcast_tag'',
                                 PList [PStr (str_lit ''a''), PStr (str_lit ''b'')]),
                               (str_lit ''podcast_title'', PStr (str_lit ''Episode 1'')),
                               (str_lit ''content'', PStr (replicate 201 120))]"])
       (simp_all add: pts_eq example_points_def)
  moreover have "podcast_tag (rs ! 2) = PStr (str_lit ''solo'')"
    by (rule scl [where d = "[(str_lit ''podcast_tag'', PStr (str_lit ''solo''))]"])
       (simp_all add: pts_eq example_points_def)
  ultimately show ?thesis
    by (simp add: rs_def str_lit_def)
qed

text \<open>
  C10. When the embedding model is available and the two service calls succeed, the
  search returns one result per point and does not fail on a missing payload or field:
  a point without payload, and a payload without the tag, title or content key, give the
  empty string for that field. A list tag is joined after its \<^verbatim>\<open>None\<close> entries are
  dropped and the remaining ones are turned into strings.
\<close>

theorem search_missing_fields:
  assumes "embedding_model self \<noteq> None \<or> SentenceTransformer env (EMBEDDING_MODEL cfg) = None"
    and "encode env q = Inr v"
    and "qdrant_search env (COLLECTION_NAME cfg) v
           (case limit of None \<Rightarrow> DEFAULT_SEARCH_LIMIT cfg | Some l \<Rightarrow> l) = Inr pts"
  shows "\<exists>rs. fst (search_similar_content cfg env self q limit) = Inr rs \<and>
           length rs = length pts \<and>
           (\<forall>i. i < length pts \<longrightarrow>
              (sp_payload (pts ! i) = None \<longrightarrow>
                 podcast_tag (rs ! i) = PStr [] \<and> podcast_title (rs ! i) = PStr [] \<and>
                 content (rs ! i) = PStr []) \<and>
              (\<forall>d. sp_payload (pts ! i) = Some d \<longrightarrow>
                 (map_of d (str_lit ''podcast_tag'') = None \<longrightarrow> podcast_tag (rs ! i) = PStr []) \<and>
                 (map_of d (str_lit ''podcast_title'') = None \<longrightarrow> podcast_title (rs ! i) = PStr []) \<and>
                 (map_of d (str_lit ''content'') = None \<longrightarrow> content (rs ! i) = PStr []) \<and>
                 (\<forall>ts. map_of d (str_lit ''podcast_tag'') = Some (PList ts) \<longrightarrow>
                    podcast_tag (rs ! i) =
                      PStr (join (str_lit '', '')
                             (map (py_str (py_repr env)) (filter (\<lambda>t. t \<noteq> PNone) ts))))))"
proof -
  have "fst (search_similar_content cfg env self q limit) = Inr (map (format_point env) pts)"
    unfolding search_similar_content_Inr using assms by blast
  moreover have "length (map (format_point env) pts) = length pts" by simp
  moreover have "\<forall>i. i < length pts \<longrightarrow>
              (sp_payload (pts ! i) = None \<longrightarrow>
                 podcast_tag (map (format_point env) pts ! i) = PStr [] \<and>
                 podcast_title (map (format_point env) pts ! i) = PStr [] \<and>
                 content (map (format_point env) pts ! i) = PStr []) \<and>
              (\<forall>d. sp_payload (pts ! i) = Some d \<longrightarrow>
                 (map_of d (str_lit ''podcast_tag'') = None \<longrightarrow>
                    podcast_tag (map (format_point env) pts ! i) = PStr []) \<and>
                 (map_of d (str_lit ''podcast_title'') = None \<longrightarrow>
                    podcast_title (map (format_point env) pts ! i) = PStr []) \<and>
                 (map_of d (str_lit ''content'') = None \<longrightarrow>
                    content (map (format_point env) pts ! i) = PStr []) \<and>
                 (\<forall>ts. map_of d (str_lit ''podcast_tag'') = Some (PList ts) \<longrightarrow>
                    podcast_tag (map (format_point env) pts ! i) =
                      PStr (join (str_lit '', '')
                             (map (py_str (py_repr env)) (filter (\<lambda>t. t \<noteq> PNone) ts)))))"
    by (simp add: format_point_no_payload format_point_missing format_point_tag_list)
  ultimately show ?thesis by blast
qed

theorem search_missing_fields_witness:
  "\<exists>rs. fst (search_similar_content default_config (example_env example_points []) new_service
                (str_lit ''hi'') None) = Inr rs \<and>
        podcast_tag (rs ! 1) = PStr (str_lit ''a, b'') \<and>
        podcast_title (rs ! 1) = PStr [] \<and>
        podcast_tag (rs ! 3) = PStr [] \<and> podcast_title (rs ! 3) = PStr [] \<and>
        content (rs ! 3) = PStr []"
proof -
  have "embedding_model (new_service :: int rag_service) \<noteq> None \<or>
        SentenceTransformer (example_env example_points []) (EMBEDDING_MODEL default_config) = None"
    by (simp add: example_env_def)
  moreover have "encode (example_env example_points []) (str_lit ''hi'') = Inr [0, 1]"
    by (simp add: example_env_def)
  moreover have "qdrant_search (example_env example_points []) (COLLECTION_NAME default_config)
                   [0, 1] (case None of None \<Rightarrow> DEFAULT_SEARCH_LIMIT default_config
                           | Some l \<Rightarrow> l) = Inr example_points"
    by (simp add: example_env_def)
  ultimately obtain rs where rs: "fst (search_similar_content default_config
                                 (example_env example_points []) new_service (str_lit ''hi'') None)
                            = Inr rs"
    and p: "\<And>i. i < length example_points \<Longrightarrow>
              (sp_payload (example_points ! i) = None \<longrightarrow>
                 podcast_tag (rs ! i) = PStr [] \<and> podcast_title (rs ! i) = PStr [] \<and>
                 content (rs ! i) = PStr []) \<and>
              (\<forall>d. sp_payload (example_points ! i) = Some d \<longrightarrow>
                 (map_of d (str_lit ''podcast_tag'') = None \<longrightarrow> podcast_tag (rs ! i) = PStr []) \<and>
                 (map_of d (str_lit ''podcast_title'') = None \<longrightarrow> podcast_title (rs ! i) = PStr []) \<and>
                 (map_of d (str_lit ''content'') = None \<longrightarrow> content (rs ! i) = PStr []) \<and>
                 (\<forall>ts. map_of d (str_lit ''podcast_tag'') = Some (PList ts) \<longrightarrow>
                    podcast_tag (rs ! i) =
                      PStr (join (str_lit '', '')
                             (map (py_str (py_repr (example_env example_points [])))
                                (filter (\<lambda>t. t \<noteq> PNone) ts)))))"
    using search_missing_fields [of new_service "example_env example_points []" default_config
            "str_lit ''hi''" "[0, 1]" None example_points]
    by blast
  have "podcast_tag (rs ! 3) = PStr [] \<and> podcast_title (rs ! 3) = PStr [] \<and>
        content (rs ! 3) = PStr []"
    using p [of 3] by (simp add: example_points_def)
  moreover have "podcast_tag (rs ! 1) = PStr (str_lit ''a, b'') \<and> podcast_title (rs ! 1) = PStr []"
    using p [of 1] by (simp add: example_points_def str_lit_def)
  ultimately show ?thesis using rs by blast
qed

section \<open>Prompt assembly\<close>

text \<open>
  C5. The prompt is, in this order: the fixed opening of the template; the context; the
  line \<^verbatim>\<open>User Question:\<close> with the query; the fixed instructions. The context is made of
  one block per result, in the order of the list and numbered from 1; a block is
  \<^verbatim>\<open>[Source i] Title: '...', Tag: '...'\<close>, a newline, \<^verbatim>\<open>Content: ...\<close> and two newlines,
  with the title, the tag and the content as \<^verbatim>\<open>str\<close> gives them. No bound on the
  length is applied: with no result the context is empty, and otherwise every block but
  the last is in the prompt in full, and the last one up to the white space at its end,
  which \<^verbatim>\<open>strip()\<close> removes. The prompt is a function of the query and the list: the
  state of the service and the answers of the services do not enter it (the interpreter's
  \<^verbatim>\<open>repr\<close> apart).
\<close>

theorem prompt_deterministic:
  "(let head_text = str_lit
          ''You are an AI assistant helping users understand podcast content. Use the provided context to answer the user's question accurately and comprehensively.\<newline>\<newline>Context from podcast transcripts:\<newline>'';
        question_text = str_lit ''\<newline>\<newline>User Question: '';
        instructions_text = str_lit
          ''\<newline>\<newline>Instructions:\<newline>- Base your answer primarily on the provided context\<newline>- If the context doesn't contain enough information, clearly state this\<newline>- Provide a comprehensive and helpful answer\<newline>- If the context is in Chinese, you can respond in both Chinese and English as appropriate\<newline>- Be conversational and engaging\<newline>\<newline>Answer:'';
        block = (\<lambda>i r.
          str_lit ''[Source '' @ decimal i @ str_lit ''] Title: '' @ [39]
            @ py_str (py_repr env) (podcast_title r) @ [39] @ str_lit '', Tag: '' @ [39]
            @ py_str (py_repr env) (podcast_tag r) @ [39, 10]
            @ str_lit ''Content: '' @ py_str (py_repr env) (content r) @ [10, 10])
    in generate_rag_prompt env self q rs =
         head_text @ strip (concat (map2 block [1..<Suc (length rs)] rs))
           @ question_text @ q @ instructions_text \<and>
       generate_rag_prompt env self q [] = head_text @ question_text @ q @ instructions_text \<and>
       (rs \<noteq> [] \<longrightarrow>
          generate_rag_prompt env self q rs =
            head_text @ concat (map2 block [1..<length rs] (butlast rs))
              @ rev (dropWhile isspace (rev (block (length rs) (last rs))))
              @ question_text @ q @ instructions_text)) \<and>
   (py_repr env' = py_repr env \<longrightarrow>
      generate_rag_prompt env' self' q rs = generate_rag_prompt env self q rs)"
proof -
  have closed: "generate_rag_prompt env self q xs =
      template_head @ strip (concat (map2 (source_block env) [1..<Suc (length xs)] xs))
        @ template_mid @ q @ template_tail" for xs
    by (simp add: generate_rag_prompt_def build_context_acc)
  have empty: "generate_rag_prompt env self q [] = template_head @ template_mid @ q @ template_tail"
    by (simp add: closed strip_def)
  have full: "generate_rag_prompt env self q rs =
      template_head @ concat (map2 (source_block env) [1..<length rs] (butlast rs))
        @ rev (dropWhile isspace (rev (source_block env (length rs) (last rs))))
        @ template_mid @ q @ template_tail" if "rs \<noteq> []"
    by (simp only: closed strip_context [OF that] append_assoc)
  have same: "generate_rag_prompt env' self' q rs = generate_rag_prompt env self q rs"
    if "py_repr env' = py_repr env"
  proof -
    have "build_context env' 1 rs [] = build_context env 1 rs []"
      using that by (rule build_context_repr)
    then show ?thesis
      by (simp add: generate_rag_prompt_def)
  qed
  show ?thesis
    unfolding Let_def
    using closed [of rs] empty full same
    by (simp only: source_block_text template_head_def template_mid_def template_tail_def)
      blast
qed

theorem prompt_deterministic_witness:
  "generate_rag_prompt (example_env [] []) new_service (str_lit ''hi'') example_results =
     str_lit ''You are an AI assistant helping users understand podcast content. Use the provided context to answer the user's question accurately and comprehensively.\<newline>\<newline>Context from podcast transcripts:\<newline>[Source 1] Title: 'Ep 1', Tag: 'a, b'\<newline>Content: first\<newline>\<newline>[Source 2] Title: 'Ep 2', Tag: 'solo'\<newline>Content: second\<newline>\<newline>User Question: hi\<newline>\<newline>Instructions:\<newline>- Base your answer primarily on the provided context\<newline>- If the context doesn't contain enough information, clearly state this\<newline>- Provide a comprehensive and helpful answer\<newline>- If the context is in Chinese, you can respond in both Chinese and English as appropriate\<newline>- Be conversational and engaging\<newline>\<newline>Answer:'' \<and>
   generate_rag_prompt (example_env example_points [str_lit ''podcast_chunks''])
       (new_service\<lparr>llm_client := Some OpenAI_client\<rparr>) (str_lit ''hi'') example_results =
     generate_rag_prompt (example_env [] []) new_service (str_lit ''hi'') example_results"
proof -
  have ne: "example_results \<noteq> []"
    by (simp add: example_results_def)
  have repr: "py_repr (example_env example_points [str_lit ''podcast_chunks''])
                = py_repr (example_env [] [])"
    by (simp add: example_env_def)
  have len: "length example_results = 2" "butlast example_results = [example_results ! 0]"
    "last example_results = example_results ! 1"
    by (simp_all add: example_results_def)
  show ?thesis
    using prompt_deterministic [of "example_env [] []" new_service "str_lit ''hi''"
            example_results "example_env example_points [str_lit ''podcast_chunks'']"
            "new_service\<lparr>llm_client := Some OpenAI_client\<rparr>"] ne repr
    by (simp add: Let_def example_results_def example_env_def str_lit_def isspace_def strip_def
        decimal.simps)
qed

section \<open>Health report\<close>

text \<open>
  C7. \<open>health_check\<close> leaves both lazy handles as they are; the only call it issues is
  the listing of the collections. It reports a handle as deferred exactly when the handle
  is \<^verbatim>\<open>None\<close> and as initialized exactly when it is not.
\<close>

theorem health_check_frame:
  "embedding_model (snd (health_check cfg env self)) = embedding_model self \<and>
   llm_client (snd (health_check cfg env self)) = llm_client self \<and>
   calls (snd (health_check cfg env self)) = calls self @ [Call_get_collections] \<and>
   (c_status (hs_embedding_model (fst (health_check cfg env self))) = str_lit ''deferred'')
     = (embedding_model self = None) \<and>
   (c_status (hs_embedding_model (fst (health_check cfg env self))) = str_lit ''initialized'')
     = (embedding_model self \<noteq> None) \<and>
   (c_status (hs_openai (fst (health_check cfg env self))) = str_lit ''deferred'')
     = (llm_client self = None) \<and>
   (c_status (hs_openai (fst (health_check cfg env self))) = str_lit ''initialized'')
     = (llm_client self \<noteq> None)"
  by (simp add: health_check_def Let_def str_lit_def)

section \<open>Ingestion\<close>

text \<open>
  C8. Given the list of existing collections: when the name is in the list,
  \<open>ensure_collection\<close> returns normally after printing that the collection exists, and
  issues no create call; when it is not and the creation succeeds, the collection is
  created with the given vector size and cosine distance, the index on
  \<^verbatim>\<open>podcast_tag\<close> is requested, and the function returns normally whether or not the
  index could be created, printing a warning when it could not.
\<close>

theorem ensure_collection_idempotent:
  assumes "get_collections client = Inr names"
  shows "(collection_name \<in> set names \<longrightarrow>
            ensure_collection client collection_name vector_size trace =
              (Inr (), trace @ [Call_get_collections,
                                Print (Collection_already_exists collection_name)])) \<and>
         (collection_name \<notin> set names \<longrightarrow>
            create_collection client collection_name vector_size COSINE = None \<longrightarrow>
            ensure_collection client collection_name vector_size trace =
              (Inr (), trace @ [Call_get_collections,
                                Print (Creating_collection collection_name vector_size),
                                Call_create_collection collection_name vector_size COSINE,
                                Call_create_payload_index collection_name
                                  (str_lit ''podcast_tag'') KEYWORD]
                 @ (case create_payload_index client collection_name
                           (str_lit ''podcast_tag'') KEYWORD of
                      None \<Rightarrow> []
                    | Some e \<Rightarrow> [Print (Warning_create_payload_index_failed (Str e))])))"
  using assms by (simp add: ensure_collection_def Let_def split: option.splits)

theorem ensure_collection_idempotent_witness:
  "ensure_collection (example_env [] [str_lit ''podcast_chunks'']) (str_lit ''podcast_chunks'')
     384 [] =
     (Inr (), [Call_get_collections,
               Print (Collection_already_exists (str_lit ''podcast_chunks''))]) \<and>
   ensure_collection (example_env [] []) (str_lit ''podcast_chunks'') 384 [] =
     (Inr (), [Call_get_collections,
               Print (Creating_collection (str_lit ''podcast_chunks'') 384),
               Call_create_collection (str_lit ''podcast_chunks'') 384 COSINE,
               Call_create_payload_index (str_lit ''podcast_chunks'') (str_lit ''podcast_tag'')
                 KEYWORD,
               Print (Warning_create_payload_index_failed
                        (Str (External (str_lit ''timeout''))))])"
proof -
  have a: "get_collections (example_env [] [str_lit ''podcast_chunks''])
             = Inr [str_lit ''podcast_chunks'']"
    by (simp add: example_env_def)
  have b: "get_collections (example_env [] []) = Inr []"
    by (simp add: example_env_def)
  show ?thesis
    using ensure_collection_idempotent [OF a, of "str_lit ''podcast_chunks''" 384 "[]"]
          ensure_collection_idempotent [OF b, of "str_lit ''podcast_chunks''" 384 "[]"]
    by (simp add: example_env_def)
qed

section \<open>Configuration\<close>

text \<open>
  C9. \<open>validate\<close> raises the error that lists the missing keys exactly when
  \<^verbatim>\<open>OPENAI_API_KEY\<close> is absent or empty, and returns \<^verbatim>\<open>True\<close> otherwise. No other
  setting takes part in the outcome, and the list of missing keys is then that one key.
\<close>

theorem validate_openai_key:
  "validate cls =
     (if OPENAI_API_KEY cls = None \<or> OPENAI_API_KEY cls = Some []
      then Inl (ValueError (str_lit ''Missing required environment variables: OPENAI_API_KEY''))
      else Inr True)"
proof (cases "OPENAI_API_KEY cls")
  case None
  then show ?thesis
    by (simp add: validate_def getattr_def str_lit_def)
next
  case (Some k)
  then show ?thesis
    by (simp add: validate_def getattr_def str_lit_def)
qed

end
